theory Spec2Isabelle
  imports Main "HOL-Library.Word"
begin

unbundle bit_operations_syntax

section \<open>Machine types and constants of XRA1405.hpp\<close>

type_synonym uint8_t = "8 word"
type_synonym uint32_t = "32 word"

text \<open>\<open>int8_t\<close> is kept as its two's complement byte: \<open>-1\<close> is the byte \<open>0xFF\<close>.\<close>

type_synonym int8_t = "8 word"

datatype BitOrder = LSBFIRST | MSBFIRST

datatype DataMode = SPI_MODE0 | SPI_MODE1 | SPI_MODE2 | SPI_MODE3

datatype SPISettings = SPISettings uint32_t BitOrder DataMode

definition XRA1405_SPI_CLOCK :: uint32_t where
  "XRA1405_SPI_CLOCK = 26000000"

definition SPI_ORDER :: BitOrder where
  "SPI_ORDER = MSBFIRST"

definition SPI_MODE :: DataMode where
  "SPI_MODE = SPI_MODE0"

definition XRA1405_WRITE :: uint8_t where
  "XRA1405_WRITE = 0x7F"

definition XRA1405_READ :: uint8_t where
  "XRA1405_READ = 0x80"

text \<open>
  The constants of \<open>Arduino.h\<close>, which is not part of the repository. The values are
  those of the ESP32 core, the one whose \<open>SPI.begin\<close> takes the four pins that
  \<open>XRA1405_begin\<close> passes. The driver only compares a mode with \<open>OUTPUT\<close> and with
  \<open>INPUT_PULLUP\<close> and a level with \<open>HIGH\<close>.
\<close>

definition LOW :: uint8_t where
  "LOW = 0x0"

definition HIGH :: uint8_t where
  "HIGH = 0x1"

definition INPUT :: uint8_t where
  "INPUT = 0x01"

definition OUTPUT :: uint8_t where
  "OUTPUT = 0x03"

definition INPUT_PULLUP :: uint8_t where
  "INPUT_PULLUP = 0x05"

text \<open>
  \<open>enum XRA1405_Register\<close>: each enumerator is written \<open>a << 1\<close> in the header;
  \<open>address\<close> is the \<open>a\<close> and \<open>enumerator\<close> the pre-shifted value that the driver
  stores in a \<open>uint8_t\<close> command byte.
\<close>

datatype XRA1405_Register =
    GSR1 | GSR2 | OCR1 | OCR2 | PIR1 | PIR2 | GCR1 | GCR2 | PUR1 | PUR2 | IER1 | IER2
  | TSCR1 | TSCR2 | ISR1 | ISR2 | REIR1 | REIR2 | FEIR1 | FEIR2 | IFR1 | IFR2

fun address :: "XRA1405_Register \<Rightarrow> uint8_t" where
  "address GSR1 = 0x00"
| "address GSR2 = 0x01"
| "address OCR1 = 0x02"
| "address OCR2 = 0x03"
| "address PIR1 = 0x04"
| "address PIR2 = 0x05"
| "address GCR1 = 0x06"
| "address GCR2 = 0x07"
| "address PUR1 = 0x08"
| "address PUR2 = 0x09"
| "address IER1 = 0x0A"
| "address IER2 = 0x0B"
| "address TSCR1 = 0x0C"
| "address TSCR2 = 0x0D"
| "address ISR1 = 0x0E"
| "address ISR2 = 0x0F"
| "address REIR1 = 0x10"
| "address REIR2 = 0x11"
| "address FEIR1 = 0x12"
| "address FEIR2 = 0x13"
| "address IFR1 = 0x14"
| "address IFR2 = 0x15"

definition enumerator :: "XRA1405_Register \<Rightarrow> uint8_t" where
  "enumerator r = push_bit 1 (address r)"

datatype XRA1405_InterruptType =
  INTERRUPT_DISABLE | INTERRUPT_RISING | INTERRUPT_FALLING | INTERRUPT_BOTH

section \<open>The environment: library calls and the expander\<close>

text \<open>
  The calls that the driver makes into the Arduino core are recorded in the order in which
  they are made: every line of \<open>SPI_Read\<close>, \<open>SPI_Write\<close> and \<open>XRA1405_begin\<close>
  is one event.
\<close>

datatype event =
    SPI_begin int8_t int8_t int8_t int8_t
  | SPI_setFrequency uint32_t
  | digitalWrite uint8_t uint8_t
  | SPI_beginTransaction SPISettings
  | SPI_transfer uint8_t
  | SPI_endTransaction

text \<open>
  Modelled from the spec: the expander at the other end of the bus, which is hardware and
  has no source. It is a file of 8-bit registers, one bit per pin of a bank, and the levels
  applied to the pins from outside (\<open>level1\<close> for P0-P7, \<open>level2\<close> for P8-P15).
\<close>

record xra1405 =
  regs :: "uint8_t \<Rightarrow> uint8_t"
  level1 :: uint8_t
  level2 :: uint8_t

text \<open>
  Modelled from the spec: what a state register reports. A configuration bit 0 makes the
  pin an output, which is at the level of its output-control bit; a configuration bit 1
  makes it an input, which is at the level applied from outside. A state bit 1 means that
  the pin is high.
\<close>

definition pin_state :: "uint8_t \<Rightarrow> uint8_t \<Rightarrow> uint8_t \<Rightarrow> uint8_t" where
  "pin_state gcr ocr level = (ocr AND NOT gcr) OR (level AND gcr)"

text \<open>
  Modelled from the spec: reading a register. The two state registers report the pins of
  their bank; every other register gives the byte it holds.
\<close>

definition device_read :: "xra1405 \<Rightarrow> uint8_t \<Rightarrow> uint8_t" where
  "device_read d a =
     (if a = address GSR1 then pin_state (regs d (address GCR1)) (regs d (address OCR1)) (level1 d)
      else if a = address GSR2 then pin_state (regs d (address GCR2)) (regs d (address OCR2)) (level2 d)
      else regs d a)"

text \<open>
  Modelled from the spec: writing a register. The state registers are read-only; every
  other register keeps the byte written to it.
\<close>

definition device_write :: "xra1405 \<Rightarrow> uint8_t \<Rightarrow> uint8_t \<Rightarrow> xra1405" where
  "device_write d a v =
     (if a = address GSR1 \<or> a = address GSR2 then d else d\<lparr>regs := (regs d)(a := v)\<rparr>)"

text \<open>
  Modelled from the spec: the register address that the expander takes from a command
  byte, bits 6:1.
\<close>

definition command_address :: "uint8_t \<Rightarrow> uint8_t" where
  "command_address c = take_bit 6 (drop_bit 1 c)"

text \<open>
  Modelled from the spec: one exchange of two bytes, the command byte and the byte that the
  master sends after it. Bit 7 of the command byte is the direction, 1 for a read. The
  result is the byte that the expander clocks out during the second transfer, and the
  expander afterwards.
\<close>

definition device_exchange :: "xra1405 \<Rightarrow> uint8_t \<Rightarrow> uint8_t \<Rightarrow> uint8_t \<times> xra1405" where
  "device_exchange d c x =
     (if bit c 7 then (device_read d (command_address c), d)
      else (0, device_write d (command_address c) x))"

text \<open>
  The state that the driver acts on: the expander wired to each chip-select pin of the
  host, and the calls made so far.
\<close>

record world =
  chips :: "uint8_t \<Rightarrow> xra1405"
  calls :: "event list"

section \<open>XRA1405.cpp\<close>

definition XRA1405_begin :: "int8_t \<Rightarrow> int8_t \<Rightarrow> int8_t \<Rightarrow> uint32_t \<Rightarrow> world \<Rightarrow> world" where
  "XRA1405_begin sck miso mosi freq0 w =
     (let freq = (if freq0 < 24000000 \<or> freq0 > 26000000 then XRA1405_SPI_CLOCK else freq0)
      in w\<lparr>calls := calls w @ [SPI_begin sck miso mosi (- 1), SPI_setFrequency freq]\<rparr>)"

definition SPI_Read :: "uint8_t \<Rightarrow> uint8_t \<Rightarrow> world \<Rightarrow> uint8_t \<times> world" where
  "SPI_Read chipSelectPin commandByte w =
     (case device_exchange (chips w chipSelectPin) commandByte 0x00 of
        (readValue, d) \<Rightarrow>
          (readValue,
           w\<lparr>chips := (chips w)(chipSelectPin := d),
             calls := calls w @
               [digitalWrite chipSelectPin LOW,
                SPI_beginTransaction (SPISettings XRA1405_SPI_CLOCK SPI_ORDER SPI_MODE),
                SPI_transfer commandByte,
                SPI_transfer 0x00,
                SPI_endTransaction,
                digitalWrite chipSelectPin HIGH]\<rparr>))"

definition SPI_Write :: "uint8_t \<Rightarrow> uint8_t \<Rightarrow> uint8_t \<Rightarrow> world \<Rightarrow> world" where
  "SPI_Write chipSelectPin commandByte dataByte w =
     (case device_exchange (chips w chipSelectPin) commandByte dataByte of
        (_, d) \<Rightarrow>
          w\<lparr>chips := (chips w)(chipSelectPin := d),
            calls := calls w @
              [digitalWrite chipSelectPin LOW,
               SPI_beginTransaction (SPISettings XRA1405_SPI_CLOCK SPI_ORDER SPI_MODE),
               SPI_transfer commandByte,
               SPI_transfer dataByte,
               SPI_endTransaction,
               digitalWrite chipSelectPin HIGH]\<rparr>)"

definition setReadMode :: "uint8_t \<Rightarrow> uint8_t" where
  "setReadMode commandByte = commandByte OR XRA1405_READ"

definition setWriteMode :: "uint8_t \<Rightarrow> uint8_t" where
  "setWriteMode commandByte = commandByte AND XRA1405_WRITE"

text \<open>
  In the source \<open>1 << pin\<close> is an \<open>int\<close> and the result of \<open>|\<close> or \<open>& ~\<close> is cut
  to \<open>uint8_t\<close> when it is stored. The shift count is below 8 wherever it is used, so
  the same bits result from working in eight bits throughout.
\<close>

definition XRA1405_pinMode :: "uint8_t \<Rightarrow> uint8_t \<Rightarrow> uint8_t \<Rightarrow> world \<Rightarrow> world" where
  "XRA1405_pinMode chipSelectPin pin0 mode w =
     (let gpioConfigRegisterCommand = enumerator (if pin0 < 8 then GCR1 else GCR2);
          pin = pin0 mod 8
      in case SPI_Read chipSelectPin (setReadMode gpioConfigRegisterCommand) w of
        (gpioConfigRegisterValue, w1) \<Rightarrow>
          let newConfigValue =
                (if mode = OUTPUT then gpioConfigRegisterValue AND NOT (push_bit (unat pin) 1)
                 else gpioConfigRegisterValue OR push_bit (unat pin) 1);
              w2 = SPI_Write chipSelectPin (setWriteMode gpioConfigRegisterCommand) newConfigValue w1
          in if mode = INPUT_PULLUP then
               (let pullUpResistorRegisterCommand = enumerator (if pin < 8 then PUR1 else PUR2)
                in case SPI_Read chipSelectPin (setReadMode pullUpResistorRegisterCommand) w2 of
                  (pullUpResistorRegisterValue, w3) \<Rightarrow>
                    SPI_Write chipSelectPin (setWriteMode pullUpResistorRegisterCommand)
                      (pullUpResistorRegisterValue OR push_bit (unat pin) 1) w3)
             else w2)"

definition XRA1405_digitalWrite :: "uint8_t \<Rightarrow> uint8_t \<Rightarrow> uint8_t \<Rightarrow> world \<Rightarrow> world" where
  "XRA1405_digitalWrite chipSelectPin pin0 val w =
     (let outputControlRegisterCommand = enumerator (if pin0 < 8 then OCR1 else OCR2);
          pin = pin0 mod 8
      in case SPI_Read chipSelectPin (setReadMode outputControlRegisterCommand) w of
        (outputControlRegisterValue, w1) \<Rightarrow>
          let newOutputControlValue =
                (if val = HIGH then outputControlRegisterValue OR push_bit (unat pin) 1
                 else outputControlRegisterValue AND NOT (push_bit (unat pin) 1))
          in SPI_Write chipSelectPin (setWriteMode outputControlRegisterCommand)
               newOutputControlValue w1)"

definition XRA1405_digitalRead :: "uint8_t \<Rightarrow> uint8_t \<Rightarrow> world \<Rightarrow> uint8_t \<times> world" where
  "XRA1405_digitalRead chipSelectPin pin0 w =
     (let gpioStateRegisterCommand = enumerator (if pin0 < 8 then GSR1 else GSR2);
          pin = pin0 mod 8
      in case SPI_Read chipSelectPin (setReadMode gpioStateRegisterCommand) w of
        (gpioStateRegisterValue, w1) \<Rightarrow>
          (drop_bit (unat pin) gpioStateRegisterValue AND 0x01, w1))"

definition XRA1405_setPullUp :: "uint8_t \<Rightarrow> uint8_t \<Rightarrow> bool \<Rightarrow> world \<Rightarrow> world" where
  "XRA1405_setPullUp chipSelectPin pin0 enabled w =
     (let pullUpResistorRegisterCommand = enumerator (if pin0 < 8 then PUR1 else PUR2);
          pin = pin0 mod 8
      in case SPI_Read chipSelectPin (setReadMode pullUpResistorRegisterCommand) w of
        (pullUpResistorRegisterValue, w1) \<Rightarrow>
          let newPullUpValue =
                (if enabled then pullUpResistorRegisterValue OR push_bit (unat pin) 1
                 else pullUpResistorRegisterValue AND NOT (push_bit (unat pin) 1))
          in SPI_Write chipSelectPin (setWriteMode pullUpResistorRegisterCommand)
               newPullUpValue w1)"

definition configureEdgeInterrupt ::
  "uint8_t \<Rightarrow> uint8_t \<Rightarrow> XRA1405_InterruptType \<Rightarrow> world \<Rightarrow> world" where
  "configureEdgeInterrupt chipSelectPin pin0 interruptType w =
     (let risingEdgeRegisterCommand = enumerator (if pin0 < 8 then REIR1 else REIR2);
          fallingEdgeRegisterCommand = enumerator (if pin0 < 8 then FEIR1 else FEIR2);
          pin = pin0 mod 8;
          enableRising = (interruptType = INTERRUPT_RISING \<or> interruptType = INTERRUPT_BOTH);
          enableFalling = (interruptType = INTERRUPT_FALLING \<or> interruptType = INTERRUPT_BOTH)
      in case SPI_Read chipSelectPin (setReadMode risingEdgeRegisterCommand) w of
        (risingRead, w1) \<Rightarrow>
          let risingInterruptRegisterValue =
                (if enableRising then risingRead OR push_bit (unat pin) 1
                 else risingRead AND NOT (push_bit (unat pin) 1));
              w2 = SPI_Write chipSelectPin (setWriteMode risingEdgeRegisterCommand)
                     risingInterruptRegisterValue w1
          in case SPI_Read chipSelectPin (setReadMode fallingEdgeRegisterCommand) w2 of
            (fallingRead, w3) \<Rightarrow>
              let fallingInterruptRegisterValue =
                    (if enableFalling then fallingRead OR push_bit (unat pin) 1
                     else fallingRead AND NOT (push_bit (unat pin) 1));
                  w4 = SPI_Write chipSelectPin (setWriteMode fallingEdgeRegisterCommand)
                         fallingInterruptRegisterValue w3
              in if interruptType = INTERRUPT_DISABLE then
                   SPI_Write chipSelectPin (setWriteMode fallingEdgeRegisterCommand)
                     (fallingInterruptRegisterValue AND NOT (push_bit (unat pin) 1))
                     (SPI_Write chipSelectPin (setWriteMode risingEdgeRegisterCommand)
                        (risingInterruptRegisterValue AND NOT (push_bit (unat pin) 1)) w4)
                 else w4)"

definition XRA1405_setInterrupt ::
  "uint8_t \<Rightarrow> uint8_t \<Rightarrow> XRA1405_InterruptType \<Rightarrow> world \<Rightarrow> world" where
  "XRA1405_setInterrupt chipSelectPin pin0 interruptType w =
     (let interruptEnableRegisterCommand = enumerator (if pin0 < 8 then IER1 else IER2);
          pin = pin0 mod 8
      in case SPI_Read chipSelectPin (setReadMode interruptEnableRegisterCommand) w of
        (interruptEnableRegisterValue, w1) \<Rightarrow>
          configureEdgeInterrupt chipSelectPin pin interruptType
            (SPI_Write chipSelectPin (setWriteMode interruptEnableRegisterCommand)
               (interruptEnableRegisterValue OR push_bit (unat pin) 1) w1))"

definition XRA1405_clearInterrupts :: "uint8_t \<Rightarrow> world \<Rightarrow> world" where
  "XRA1405_clearInterrupts chipSelectPin w =
     (let interruptStatusRegister1 = enumerator ISR1;
          interruptStatusRegister2 = enumerator ISR2
      in snd (SPI_Read chipSelectPin (setReadMode interruptStatusRegister2)
           (snd (SPI_Read chipSelectPin (setReadMode interruptStatusRegister1) w))))"

section \<open>Notions used by the statements\<close>

text \<open>The six calls of one framed exchange, as \<open>SPI_Read\<close> and \<open>SPI_Write\<close> make them.\<close>

definition frame :: "uint8_t \<Rightarrow> uint8_t \<Rightarrow> uint8_t \<Rightarrow> event list" where
  "frame chipSelectPin first second =
     [digitalWrite chipSelectPin LOW,
      SPI_beginTransaction (SPISettings XRA1405_SPI_CLOCK SPI_ORDER SPI_MODE),
      SPI_transfer first,
      SPI_transfer second,
      SPI_endTransaction,
      digitalWrite chipSelectPin HIGH]"

text \<open>The settings with which the transactions of a run were opened, in order.\<close>

fun settings_used :: "event list \<Rightarrow> SPISettings list" where
  "settings_used [] = []"
| "settings_used (SPI_beginTransaction s # es) = s # settings_used es"
| "settings_used (e # es) = settings_used es"

text \<open>Two bytes that agree once bit \<open>i\<close> is masked out of both.\<close>

definition same_except_bit :: "nat \<Rightarrow> uint8_t \<Rightarrow> uint8_t \<Rightarrow> bool" where
  "same_except_bit i v v' = (v AND NOT (push_bit i 1) = v' AND NOT (push_bit i 1))"

text \<open>
  Edge configuration as the spec words it before its special case: the two
  read-modify-write cycles and nothing after them.
\<close>

definition configureEdgeInterrupt_two_cycles ::
  "uint8_t \<Rightarrow> uint8_t \<Rightarrow> XRA1405_InterruptType \<Rightarrow> world \<Rightarrow> world" where
  "configureEdgeInterrupt_two_cycles chipSelectPin pin0 interruptType w =
     (let risingEdgeRegisterCommand = enumerator (if pin0 < 8 then REIR1 else REIR2);
          fallingEdgeRegisterCommand = enumerator (if pin0 < 8 then FEIR1 else FEIR2);
          pin = pin0 mod 8;
          enableRising = (interruptType = INTERRUPT_RISING \<or> interruptType = INTERRUPT_BOTH);
          enableFalling = (interruptType = INTERRUPT_FALLING \<or> interruptType = INTERRUPT_BOTH)
      in case SPI_Read chipSelectPin (setReadMode risingEdgeRegisterCommand) w of
        (risingRead, w1) \<Rightarrow>
          let risingInterruptRegisterValue =
                (if enableRising then risingRead OR push_bit (unat pin) 1
                 else risingRead AND NOT (push_bit (unat pin) 1));
              w2 = SPI_Write chipSelectPin (setWriteMode risingEdgeRegisterCommand)
                     risingInterruptRegisterValue w1
          in case SPI_Read chipSelectPin (setReadMode fallingEdgeRegisterCommand) w2 of
            (fallingRead, w3) \<Rightarrow>
              let fallingInterruptRegisterValue =
                    (if enableFalling then fallingRead OR push_bit (unat pin) 1
                     else fallingRead AND NOT (push_bit (unat pin) 1))
              in SPI_Write chipSelectPin (setWriteMode fallingEdgeRegisterCommand)
                   fallingInterruptRegisterValue w3)"

text \<open>
  Concrete inputs on which the driver is run below. \<open>reset_chip\<close> has every pin
  configured as an input (both configuration registers \<open>0xFF\<close>), every other register
  0 and no pin driven high from outside; \<open>armed_chip\<close> has in addition every edge
  enabled in the four edge registers. \<open>bench\<close> and \<open>armed_bench\<close> wire such a chip to
  every chip-select pin, with no call made yet.
\<close>

definition reset_chip :: xra1405 where
  "reset_chip =
     \<lparr>regs = (\<lambda>a. if a = address GCR1 \<or> a = address GCR2 then 0xFF else 0x00),
      level1 = 0x00, level2 = 0x00\<rparr>"

definition armed_chip :: xra1405 where
  "armed_chip =
     \<lparr>regs = (\<lambda>a. if a = address GCR1 \<or> a = address GCR2 \<or> a = address REIR1
                     \<or> a = address REIR2 \<or> a = address FEIR1 \<or> a = address FEIR2
                   then 0xFF else 0x00),
      level1 = 0x00, level2 = 0x00\<rparr>"

definition bench :: world where
  "bench = \<lparr>chips = (\<lambda>_. reset_chip), calls = []\<rparr>"

definition armed_bench :: world where
  "armed_bench = \<lparr>chips = (\<lambda>_. armed_chip), calls = []\<rparr>"

section \<open>Command bytes and framed exchanges\<close>

lemma read_command_bit7: "bit (setReadMode (enumerator r)) 7"
  by (cases r) (simp_all add: setReadMode_def enumerator_def XRA1405_READ_def bit_simps)

lemma write_command_bit7: "\<not> bit (setWriteMode (enumerator r)) 7"
  by (simp add: setWriteMode_def XRA1405_WRITE_def bit_simps)

lemma read_command_address: "command_address (setReadMode (enumerator r)) = address r"
  by (cases r) (simp_all add: command_address_def setReadMode_def enumerator_def XRA1405_READ_def)

lemma write_command_address: "command_address (setWriteMode (enumerator r)) = address r"
  by (cases r) (simp_all add: command_address_def setWriteMode_def enumerator_def XRA1405_WRITE_def)

lemma SPI_Read_register:
  "SPI_Read cs (setReadMode (enumerator r)) w =
     (device_read (chips w cs) (address r),
      w\<lparr>calls := calls w @ frame cs (setReadMode (enumerator r)) 0x00\<rparr>)"
  by (simp add: SPI_Read_def device_exchange_def read_command_bit7 read_command_address frame_def)

lemma SPI_Write_register:
  "SPI_Write cs (setWriteMode (enumerator r)) v w =
     w\<lparr>chips := (chips w)(cs := device_write (chips w cs) (address r) v),
       calls := calls w @ frame cs (setWriteMode (enumerator r)) v\<rparr>"
  by (simp add: SPI_Write_def device_exchange_def write_command_bit7 write_command_address frame_def)

lemma pin_mod8_less: "(p :: uint8_t) mod 8 < 8"
  by (simp add: word_mod_less_divisor)

lemma pin_mod8_mod8: "(p :: uint8_t) mod 8 mod 8 = p mod 8"
  by (simp add: unat_arith_simps unat_word_ariths)

lemma high_pin_not_low: "\<not> 8 + (p :: uint8_t) mod 8 < 8"
  by (simp add: unat_arith_simps)

lemma high_pin_mod8: "(8 + (p :: uint8_t) mod 8) mod 8 = p mod 8"
  by (simp add: unat_arith_simps unat_word_ariths)

lemma pin_ge16_not_low: "16 \<le> (p :: uint8_t) \<Longrightarrow> \<not> p < 8"
  by (simp add: unat_arith_simps)

lemma same_except_bit_iff:
  "same_except_bit i v v' \<longleftrightarrow> (\<forall>j. j \<noteq> i \<longrightarrow> bit v j = bit v' j)"
proof
  assume "same_except_bit i v v'"
  then have eq: "v AND NOT (push_bit i 1) = v' AND NOT (push_bit i 1)"
    by (simp only: same_except_bit_def)
  show "\<forall>j. j \<noteq> i \<longrightarrow> bit v j = bit v' j"
  proof (intro allI impI)
    fix j :: nat
    assume "j \<noteq> i"
    moreover have "bit (v AND NOT (push_bit i 1)) j = bit (v' AND NOT (push_bit i 1)) j"
      by (simp only: eq)
    ultimately show "bit v j = bit v' j"
      by (cases "j < 8") (auto simp add: bit_simps dest: bit_imp_le_length)
  qed
next
  assume "\<forall>j. j \<noteq> i \<longrightarrow> bit v j = bit v' j"
  then have "v AND NOT (push_bit i 1) = v' AND NOT (push_bit i 1)"
    by (intro bit_word_eqI) (auto simp add: bit_simps)
  then show "same_except_bit i v v'"
    by (simp only: same_except_bit_def)
qed

lemma same_except_bit_refl: "same_except_bit i v v"
  by (simp add: same_except_bit_def)

lemma same_except_bit_set: "same_except_bit i v (v OR 2 ^ i)"
  by (auto simp add: same_except_bit_iff bit_simps dest: bit_imp_le_length)

lemma same_except_bit_clear: "same_except_bit i v (v AND NOT (2 ^ i))"
  by (auto simp add: same_except_bit_iff bit_simps dest: bit_imp_le_length)

lemma regs_device_write:
  "regs (device_write d a v) b =
     (if a = b \<and> a \<noteq> address GSR1 \<and> a \<noteq> address GSR2 then v else regs d b)"
  by (simp add: device_write_def)

lemma device_read_plain:
  "a \<noteq> address GSR1 \<Longrightarrow> a \<noteq> address GSR2 \<Longrightarrow> device_read d a = regs d a"
  by (simp add: device_read_def)

lemmas rmw_simps =
  Let_def SPI_Read_register SPI_Write_register regs_device_write device_read_plain
  pin_mod8_less pin_mod8_mod8

lemmas frame_simps = same_except_bit_refl same_except_bit_set same_except_bit_clear

lemma digitalWrite_frame:
  "same_except_bit (unat (pin mod 8)) (regs (chips w c) a)
     (regs (chips (XRA1405_digitalWrite cs pin val w) c) a)"
  by (simp add: XRA1405_digitalWrite_def rmw_simps frame_simps)

lemma setPullUp_frame:
  "same_except_bit (unat (pin mod 8)) (regs (chips w c) a)
     (regs (chips (XRA1405_setPullUp cs pin en w) c) a)"
  by (simp add: XRA1405_setPullUp_def rmw_simps frame_simps)

lemma pinMode_frame:
  "same_except_bit (unat (pin mod 8)) (regs (chips w c) a)
     (regs (chips (XRA1405_pinMode cs pin mode w) c) a)"
  by (simp add: XRA1405_pinMode_def rmw_simps frame_simps)

lemma configureEdgeInterrupt_frame:
  "same_except_bit (unat (pin mod 8)) (regs (chips w c) a)
     (regs (chips (configureEdgeInterrupt cs pin ty w) c) a)"
  by (simp add: configureEdgeInterrupt_def rmw_simps frame_simps)

lemma setInterrupt_frame:
  "same_except_bit (unat (pin mod 8)) (regs (chips w c) a)
     (regs (chips (XRA1405_setInterrupt cs pin ty w) c) a)"
  by (simp add: XRA1405_setInterrupt_def configureEdgeInterrupt_def rmw_simps frame_simps)

section \<open>Read-modify-write\<close>

text \<open>
  Claim C2. Whatever byte a register of the expander holds, after \<open>digital_write\<close>,
  \<open>set_pull_up\<close>, \<open>set_pin_mode\<close>, edge configuration or \<open>set_interrupt\<close> on a
  pin every register of every expander agrees with its former content outside the bit at
  index \<open>pin mod 8\<close>: the byte written back to a register differs from the byte read
  from it in at most that one bit, and the other seven bits keep their value.
\<close>

theorem read_modify_write_keeps_other_bits:
  "same_except_bit (unat (pin mod 8)) (regs (chips w c) a)
     (regs (chips (XRA1405_digitalWrite cs pin val w) c) a)
   \<and> same_except_bit (unat (pin mod 8)) (regs (chips w c) a)
     (regs (chips (XRA1405_setPullUp cs pin enabled w) c) a)
   \<and> same_except_bit (unat (pin mod 8)) (regs (chips w c) a)
     (regs (chips (XRA1405_pinMode cs pin mode w) c) a)
   \<and> same_except_bit (unat (pin mod 8)) (regs (chips w c) a)
     (regs (chips (configureEdgeInterrupt cs pin interruptType w) c) a)
   \<and> same_except_bit (unat (pin mod 8)) (regs (chips w c) a)
     (regs (chips (XRA1405_setInterrupt cs pin interruptType w) c) a)"
  by (intro conjI digitalWrite_frame setPullUp_frame pinMode_frame
      configureEdgeInterrupt_frame setInterrupt_frame)

section \<open>Command bytes\<close>

text \<open>
  Claim C7. For every register of the enumeration, the command byte of a read has bit 7
  set and that of a write has bit 7 clear; in both bit 0 is clear and bits 6:1 hold the
  register address, which fits in five bits.
\<close>

theorem command_byte_format:
  "bit (setReadMode (enumerator r)) 7
   \<and> \<not> bit (setReadMode (enumerator r)) 0
   \<and> take_bit 6 (drop_bit 1 (setReadMode (enumerator r))) = address r
   \<and> \<not> bit (setWriteMode (enumerator r)) 7
   \<and> \<not> bit (setWriteMode (enumerator r)) 0
   \<and> take_bit 6 (drop_bit 1 (setWriteMode (enumerator r))) = address r
   \<and> address r < 32"
proof -
  have "\<not> bit (setReadMode (enumerator r)) 0"
    by (cases r) (simp_all add: setReadMode_def enumerator_def XRA1405_READ_def)
  moreover have "\<not> bit (setWriteMode (enumerator r)) 0"
    by (cases r) (simp_all add: setWriteMode_def enumerator_def XRA1405_WRITE_def)
  moreover have "address r < 32"
    by (cases r) simp_all
  ultimately show ?thesis
    using read_command_bit7 [of r] write_command_bit7 [of r]
      read_command_address [of r] write_command_address [of r]
    by (simp add: command_address_def)
qed

section \<open>Initialisation\<close>

text \<open>
  Claim C8. \<open>initialize\<close> passes 26000000 Hz to the bus when the frequency argument is
  below 24000000 or above 26000000, and the argument itself when it lies in the closed
  range.
\<close>

theorem begin_frequency:
  "(freq < 24000000 \<or> 26000000 < freq \<longrightarrow>
      calls (XRA1405_begin sck miso mosi freq w) =
        calls w @ [SPI_begin sck miso mosi (- 1), SPI_setFrequency 26000000])
   \<and> (24000000 \<le> freq \<and> freq \<le> 26000000 \<longrightarrow>
      calls (XRA1405_begin sck miso mosi freq w) =
        calls w @ [SPI_begin sck miso mosi (- 1), SPI_setFrequency freq])"
  by (auto simp add: XRA1405_begin_def XRA1405_SPI_CLOCK_def)

theorem begin_frequency_witness:
  "calls (XRA1405_begin 18 19 23 10000000 bench) =
     calls bench @ [SPI_begin 18 19 23 (- 1), SPI_setFrequency 26000000]
   \<and> calls (XRA1405_begin 18 19 23 25000000 bench) =
     calls bench @ [SPI_begin 18 19 23 (- 1), SPI_setFrequency 25000000]"
  using begin_frequency [of 10000000 18 19 23 bench] begin_frequency [of 25000000 18 19 23 bench]
  by simp

section \<open>Per-transaction bus settings\<close>

lemma settings_used_append: "settings_used (xs @ ys) = settings_used xs @ settings_used ys"
  by (induction xs rule: settings_used.induct) simp_all

lemma settings_used_frame:
  "settings_used (frame cs c x) = [SPISettings 26000000 MSBFIRST SPI_MODE0]"
  by (simp add: frame_def XRA1405_SPI_CLOCK_def SPI_ORDER_def SPI_MODE_def)

lemma calls_SPI_Read: "calls (snd (SPI_Read cs c w)) = calls w @ frame cs c 0x00"
  by (simp add: SPI_Read_def frame_def split: prod.split)

lemma calls_SPI_Write: "calls (SPI_Write cs c x w) = calls w @ frame cs c x"
  by (simp add: SPI_Write_def frame_def split: prod.split)

lemma settings_used_begin:
  "settings_used (calls (XRA1405_begin sck miso mosi freq w)) = settings_used (calls w)"
  by (simp add: XRA1405_begin_def settings_used_append)

lemmas settings_simps =
  Let_def SPI_Read_register SPI_Write_register settings_used_append settings_used_frame
  eval_nat_numeral

lemma settings_SPI_Read:
  "settings_used (calls (snd (SPI_Read cs c w))) =
     settings_used (calls w) @ [SPISettings 26000000 MSBFIRST SPI_MODE0]"
  by (simp add: calls_SPI_Read settings_used_append settings_used_frame)

lemma settings_SPI_Write:
  "settings_used (calls (SPI_Write cs c x w)) =
     settings_used (calls w) @ [SPISettings 26000000 MSBFIRST SPI_MODE0]"
  by (simp add: calls_SPI_Write settings_used_append settings_used_frame)

lemma settings_pinMode:
  "settings_used (calls (XRA1405_pinMode cs pin mode w)) =
     settings_used (calls w) @
       replicate (if mode = INPUT_PULLUP then 4 else 2) (SPISettings 26000000 MSBFIRST SPI_MODE0)"
  by (simp add: XRA1405_pinMode_def settings_simps)

lemma settings_digitalWrite:
  "settings_used (calls (XRA1405_digitalWrite cs pin val w)) =
     settings_used (calls w) @ replicate 2 (SPISettings 26000000 MSBFIRST SPI_MODE0)"
  by (simp add: XRA1405_digitalWrite_def settings_simps)

lemma settings_digitalRead:
  "settings_used (calls (snd (XRA1405_digitalRead cs pin w))) =
     settings_used (calls w) @ [SPISettings 26000000 MSBFIRST SPI_MODE0]"
  by (simp add: XRA1405_digitalRead_def settings_simps)

lemma settings_setPullUp:
  "settings_used (calls (XRA1405_setPullUp cs pin enabled w)) =
     settings_used (calls w) @ replicate 2 (SPISettings 26000000 MSBFIRST SPI_MODE0)"
  by (simp add: XRA1405_setPullUp_def settings_simps)

lemma settings_configureEdgeInterrupt:
  "settings_used (calls (configureEdgeInterrupt cs pin ty w)) =
     settings_used (calls w) @
       replicate (if ty = INTERRUPT_DISABLE then 6 else 4)
         (SPISettings 26000000 MSBFIRST SPI_MODE0)"
  by (simp add: configureEdgeInterrupt_def settings_simps)

lemma settings_setInterrupt:
  "settings_used (calls (XRA1405_setInterrupt cs pin ty w)) =
     settings_used (calls w) @
       replicate (if ty = INTERRUPT_DISABLE then 8 else 6)
         (SPISettings 26000000 MSBFIRST SPI_MODE0)"
  by (simp add: XRA1405_setInterrupt_def settings_configureEdgeInterrupt settings_simps)

lemma settings_clearInterrupts:
  "settings_used (calls (XRA1405_clearInterrupts cs w)) =
     settings_used (calls w) @ replicate 2 (SPISettings 26000000 MSBFIRST SPI_MODE0)"
  by (simp add: XRA1405_clearInterrupts_def settings_simps)

text \<open>
  Claim C10. Every transaction, whether a single read or write or one of those that make
  up an operation, is opened with the settings 26000000 Hz, MSB first, mode 0. This holds
  after \<open>initialize\<close> with any frequency argument: the settings of the transactions
  do not depend on the frequency that \<open>initialize\<close> gave to the bus.
\<close>

theorem transactions_use_fixed_settings:
  "settings_used (calls (snd (SPI_Read cs c (XRA1405_begin sck miso mosi freq w)))) =
     settings_used (calls w) @ [SPISettings 26000000 MSBFIRST SPI_MODE0]
   \<and> settings_used (calls (SPI_Write cs c x (XRA1405_begin sck miso mosi freq w))) =
     settings_used (calls w) @ [SPISettings 26000000 MSBFIRST SPI_MODE0]
   \<and> settings_used (calls (XRA1405_pinMode cs pin mode (XRA1405_begin sck miso mosi freq w))) =
     settings_used (calls w) @
       replicate (if mode = INPUT_PULLUP then 4 else 2) (SPISettings 26000000 MSBFIRST SPI_MODE0)
   \<and> settings_used (calls (XRA1405_digitalWrite cs pin val (XRA1405_begin sck miso mosi freq w))) =
     settings_used (calls w) @ replicate 2 (SPISettings 26000000 MSBFIRST SPI_MODE0)
   \<and> settings_used (calls (snd (XRA1405_digitalRead cs pin (XRA1405_begin sck miso mosi freq w)))) =
     settings_used (calls w) @ [SPISettings 26000000 MSBFIRST SPI_MODE0]
   \<and> settings_used (calls (XRA1405_setPullUp cs pin enabled (XRA1405_begin sck miso mosi freq w))) =
     settings_used (calls w) @ replicate 2 (SPISettings 26000000 MSBFIRST SPI_MODE0)
   \<and> settings_used (calls (XRA1405_setInterrupt cs pin ty (XRA1405_begin sck miso mosi freq w))) =
     settings_used (calls w) @
       replicate (if ty = INTERRUPT_DISABLE then 8 else 6) (SPISettings 26000000 MSBFIRST SPI_MODE0)
   \<and> settings_used (calls (XRA1405_clearInterrupts cs (XRA1405_begin sck miso mosi freq w))) =
     settings_used (calls w) @ replicate 2 (SPISettings 26000000 MSBFIRST SPI_MODE0)"
  by (simp only: settings_SPI_Read settings_SPI_Write settings_pinMode settings_digitalWrite
      settings_digitalRead settings_setPullUp settings_setInterrupt settings_clearInterrupts
      settings_used_begin simp_thms)

section \<open>The defensive re-clear of edge configuration\<close>

lemma device_write_repeat:
  "device_write (device_write (device_write (device_write d a x) b y) a x) b y =
     device_write (device_write d a x) b y"
  by (auto simp add: device_write_def fun_eq_iff intro!: xra1405.equality)

text \<open>
  Claim C5. In edge configuration with mode \<open>disabled\<close> the two cycles write the
  rising-edge and the falling-edge register with the bit of the pin cleared, and the two
  writes that follow send the same two bytes to the same two registers. The result is the
  result of the two cycles alone with those two exchanges added to the calls: the
  expanders, and so the contents of both edge registers, are the same with and without
  the extra writes.
\<close>

theorem reclear_is_redundant:
  "(let rising = (if pin < 8 then REIR1 else REIR2);
        falling = (if pin < 8 then FEIR1 else FEIR2);
        risingValue = regs (chips w cs) (address rising) AND NOT (push_bit (unat (pin mod 8)) 1);
        fallingValue = regs (chips w cs) (address falling) AND NOT (push_bit (unat (pin mod 8)) 1);
        w' = configureEdgeInterrupt_two_cycles cs pin INTERRUPT_DISABLE w
    in calls w' =
         calls w @ frame cs (setReadMode (enumerator rising)) 0x00
                 @ frame cs (setWriteMode (enumerator rising)) risingValue
                 @ frame cs (setReadMode (enumerator falling)) 0x00
                 @ frame cs (setWriteMode (enumerator falling)) fallingValue
       \<and> configureEdgeInterrupt cs pin INTERRUPT_DISABLE w =
         w'\<lparr>calls := calls w' @ frame cs (setWriteMode (enumerator rising)) risingValue
                              @ frame cs (setWriteMode (enumerator falling)) fallingValue\<rparr>)"
  by (simp add: configureEdgeInterrupt_def configureEdgeInterrupt_two_cycles_def rmw_simps
      device_write_repeat)

section \<open>End to end on pin 3\<close>

lemmas run_simps =
  Let_def SPI_Read_register SPI_Write_register regs_device_write device_read_def device_write_def
  pin_state_def

text \<open>
  Claim C6. From a configuration register \<open>0xFF\<close> and an output-control register
  \<open>0x00\<close>, \<open>set_pin_mode(3, output)\<close>, \<open>digital_write(3, high)\<close> and
  \<open>digital_read(3)\<close> in this order return \<open>high\<close> and leave the configuration
  register at \<open>0xF7\<close> and the output-control register at \<open>0x08\<close>: bit 3 is 0 in the
  first and 1 in the second, and every other bit of both is as it was.
\<close>

theorem pin3_output_high_reads_high:
  assumes "regs (chips w cs) (address GCR1) = 0xFF"
    and "regs (chips w cs) (address OCR1) = 0x00"
  shows "fst (XRA1405_digitalRead cs 3
            (XRA1405_digitalWrite cs 3 HIGH (XRA1405_pinMode cs 3 OUTPUT w))) = HIGH
   \<and> regs (chips (snd (XRA1405_digitalRead cs 3
            (XRA1405_digitalWrite cs 3 HIGH (XRA1405_pinMode cs 3 OUTPUT w)))) cs)
         (address GCR1) = 0xF7
   \<and> regs (chips (snd (XRA1405_digitalRead cs 3
            (XRA1405_digitalWrite cs 3 HIGH (XRA1405_pinMode cs 3 OUTPUT w)))) cs)
         (address OCR1) = 0x08"
  using assms
  by (simp add: XRA1405_digitalRead_def XRA1405_digitalWrite_def XRA1405_pinMode_def run_simps
      OUTPUT_def INPUT_PULLUP_def HIGH_def)

theorem pin3_output_high_reads_high_witness:
  "fst (XRA1405_digitalRead 5 3
          (XRA1405_digitalWrite 5 3 HIGH (XRA1405_pinMode 5 3 OUTPUT bench))) = HIGH
   \<and> regs (chips (snd (XRA1405_digitalRead 5 3
          (XRA1405_digitalWrite 5 3 HIGH (XRA1405_pinMode 5 3 OUTPUT bench)))) 5)
         (address GCR1) = 0xF7
   \<and> regs (chips (snd (XRA1405_digitalRead 5 3
          (XRA1405_digitalWrite 5 3 HIGH (XRA1405_pinMode 5 3 OUTPUT bench)))) 5)
         (address OCR1) = 0x08"
proof -
  have "regs (chips bench 5) (address GCR1) = 0xFF"
    and "regs (chips bench 5) (address OCR1) = 0x00"
    by (simp_all add: bench_def reset_chip_def)
  then show ?thesis
    by (rule pin3_output_high_reads_high)
qed

section \<open>Bank selection after the pin number has been reduced\<close>

text \<open>
  \<open>XRA1405_pinMode\<close> chooses the pull-up register after \<open>pin %= 8\<close>, and
  \<open>XRA1405_setInterrupt\<close> hands the reduced pin to \<open>configureEdgeInterrupt\<close>. The
  comparison \<open>pin < 8\<close> is then always true, so the pull-up bit and the edge bits always
  go to the registers of P0-P7.
\<close>

lemma pinMode_pullup_bank:
  "regs (chips (XRA1405_pinMode cs pin INPUT_PULLUP w) cs) (address PUR2) =
     regs (chips w cs) (address PUR2)
   \<and> regs (chips (XRA1405_pinMode cs pin INPUT_PULLUP w) cs) (address PUR1) =
     regs (chips w cs) (address PUR1) OR push_bit (unat (pin mod 8)) 1"
  by (simp add: XRA1405_pinMode_def rmw_simps OUTPUT_def INPUT_PULLUP_def)

lemma setInterrupt_edge_bank:
  "regs (chips (XRA1405_setInterrupt cs pin ty w) cs) (address REIR2) =
     regs (chips w cs) (address REIR2)
   \<and> regs (chips (XRA1405_setInterrupt cs pin ty w) cs) (address FEIR2) =
     regs (chips w cs) (address FEIR2)"
  by (simp add: XRA1405_setInterrupt_def configureEdgeInterrupt_def rmw_simps)

lemma unat_pin_mod8: "unat ((p :: uint8_t) mod 8) < 8"
  by (simp add: unat_arith_simps)

lemma setInterrupt_enable_bit:
  "bit (regs (chips (XRA1405_setInterrupt cs pin ty w) cs)
          (address (if pin < 8 then IER1 else IER2))) (unat (pin mod 8))"
  by (simp add: XRA1405_setInterrupt_def configureEdgeInterrupt_def rmw_simps bit_simps
      unat_pin_mod8)

lemma setInterrupt_edge_bits:
  "bit (regs (chips (XRA1405_setInterrupt cs pin ty w) cs) (address REIR1)) (unat (pin mod 8)) =
     (ty = INTERRUPT_RISING \<or> ty = INTERRUPT_BOTH)
   \<and> bit (regs (chips (XRA1405_setInterrupt cs pin ty w) cs) (address FEIR1)) (unat (pin mod 8)) =
     (ty = INTERRUPT_FALLING \<or> ty = INTERRUPT_BOTH)"
  by (simp add: XRA1405_setInterrupt_def configureEdgeInterrupt_def rmw_simps bit_simps
      unat_pin_mod8)

text \<open>
  Claim C1 says that \<open>set_pin_mode\<close> with \<open>input_with_pullup\<close> on a pin 8-15 sets
  the bit \<open>pin mod 8\<close> of the high-bank pull-up register and leaves the low-bank one
  unchanged. Run on pin 12 of a chip whose pull-up registers are both 0, the driver leaves
  the high-bank register at 0 and sets bit 4 of the low-bank register.
\<close>

theorem pinMode_pullup_pin12_on_bench:
  "regs (chips (XRA1405_pinMode 5 12 INPUT_PULLUP bench) 5) (address PUR2) = 0x00
   \<and> regs (chips (XRA1405_pinMode 5 12 INPUT_PULLUP bench) 5) (address PUR1) = 0x10
   \<and> regs (chips bench 5) (address PUR1) = 0x00"
  by (simp add: XRA1405_pinMode_def run_simps bench_def reset_chip_def OUTPUT_def INPUT_PULLUP_def)

text \<open>
  Claim C3 says that \<open>set_interrupt\<close> with mode \<open>both\<close> leaves the rising-edge and
  falling-edge bits of the pin at 1 and every other bit of the edge registers unchanged.
  Run on pin 12 of a chip whose edge registers are all 0, the driver leaves both high-bank
  edge registers at 0 and sets bit 4, the bit of pin 4, in both low-bank edge registers;
  the interrupt-enable bit of pin 12 is set in the high bank.
\<close>

theorem setInterrupt_both_pin12_on_bench:
  "regs (chips (XRA1405_setInterrupt 5 12 INTERRUPT_BOTH bench) 5) (address REIR2) = 0x00
   \<and> regs (chips (XRA1405_setInterrupt 5 12 INTERRUPT_BOTH bench) 5) (address FEIR2) = 0x00
   \<and> regs (chips (XRA1405_setInterrupt 5 12 INTERRUPT_BOTH bench) 5) (address REIR1) = 0x10
   \<and> regs (chips (XRA1405_setInterrupt 5 12 INTERRUPT_BOTH bench) 5) (address FEIR1) = 0x10
   \<and> regs (chips (XRA1405_setInterrupt 5 12 INTERRUPT_BOTH bench) 5) (address IER2) = 0x10"
  by (simp add: XRA1405_setInterrupt_def configureEdgeInterrupt_def run_simps bench_def
      reset_chip_def)

text \<open>
  Claim C4 says that \<open>set_interrupt\<close> with mode \<open>disabled\<close> ends with the
  rising-edge and falling-edge bits of the pin at 0 and with its interrupt-enable bit at 1.
  Run on pin 12 of a chip whose edge registers are all \<open>0xFF\<close>, the driver sets the
  interrupt-enable bit of pin 12 but leaves both high-bank edge registers at \<open>0xFF\<close>,
  so both edge bits of pin 12 are still 1; it clears the edge bits of pin 4 instead.
\<close>

theorem setInterrupt_disable_pin12_on_armed_bench:
  "regs (chips (XRA1405_setInterrupt 5 12 INTERRUPT_DISABLE armed_bench) 5) (address REIR2) = 0xFF
   \<and> regs (chips (XRA1405_setInterrupt 5 12 INTERRUPT_DISABLE armed_bench) 5) (address FEIR2) = 0xFF
   \<and> regs (chips (XRA1405_setInterrupt 5 12 INTERRUPT_DISABLE armed_bench) 5) (address REIR1) = 0xEF
   \<and> regs (chips (XRA1405_setInterrupt 5 12 INTERRUPT_DISABLE armed_bench) 5) (address FEIR1) = 0xEF
   \<and> regs (chips (XRA1405_setInterrupt 5 12 INTERRUPT_DISABLE armed_bench) 5) (address IER2) = 0x10"
  by (simp add: XRA1405_setInterrupt_def configureEdgeInterrupt_def run_simps armed_bench_def
      armed_chip_def)

section \<open>Pins beyond the sixteen\<close>

lemma pin_above_15_aliases:
  assumes "16 \<le> p"
  shows "XRA1405_pinMode cs p mode w = XRA1405_pinMode cs (8 + p mod 8) mode w
   \<and> XRA1405_digitalWrite cs p val w = XRA1405_digitalWrite cs (8 + p mod 8) val w
   \<and> XRA1405_digitalRead cs p w = XRA1405_digitalRead cs (8 + p mod 8) w
   \<and> XRA1405_setPullUp cs p enabled w = XRA1405_setPullUp cs (8 + p mod 8) enabled w
   \<and> XRA1405_setInterrupt cs p interruptType w =
       XRA1405_setInterrupt cs (8 + p mod 8) interruptType w"
proof -
  have high: "\<not> p < 8"
    using assms by (rule pin_ge16_not_low)
  show ?thesis
    unfolding XRA1405_pinMode_def XRA1405_digitalWrite_def XRA1405_digitalRead_def
      XRA1405_setPullUp_def XRA1405_setInterrupt_def
    by (simp only: high high_pin_not_low high_pin_mod8 if_False simp_thms)
qed

text \<open>
  What each operation does to the register that it selects first, when the pin is not
  below 8: the register is the one of P8-P15 and the bit is \<open>pin mod 8\<close>.
\<close>

lemma pinMode_high_bank:
  assumes "\<not> p < 8"
  shows "regs (chips (XRA1405_pinMode cs p mode w) cs) (address GCR2) =
       (if mode = OUTPUT then regs (chips w cs) (address GCR2) AND NOT (push_bit (unat (p mod 8)) 1)
        else regs (chips w cs) (address GCR2) OR push_bit (unat (p mod 8)) 1)
   \<and> regs (chips (XRA1405_pinMode cs p mode w) cs) (address GCR1) =
       regs (chips w cs) (address GCR1)"
  using assms by (simp add: XRA1405_pinMode_def rmw_simps)

lemma digitalWrite_high_bank:
  assumes "\<not> p < 8"
  shows "regs (chips (XRA1405_digitalWrite cs p val w) cs) (address OCR2) =
       (if val = HIGH then regs (chips w cs) (address OCR2) OR push_bit (unat (p mod 8)) 1
        else regs (chips w cs) (address OCR2) AND NOT (push_bit (unat (p mod 8)) 1))
   \<and> regs (chips (XRA1405_digitalWrite cs p val w) cs) (address OCR1) =
       regs (chips w cs) (address OCR1)"
  using assms by (simp add: XRA1405_digitalWrite_def rmw_simps)

lemma digitalRead_high_bank:
  assumes "\<not> p < 8"
  shows "fst (XRA1405_digitalRead cs p w) =
       drop_bit (unat (p mod 8)) (device_read (chips w cs) (address GSR2)) AND 0x01
   \<and> chips (snd (XRA1405_digitalRead cs p w)) = chips w"
  using assms by (simp add: XRA1405_digitalRead_def rmw_simps)

lemma setPullUp_high_bank:
  assumes "\<not> p < 8"
  shows "regs (chips (XRA1405_setPullUp cs p enabled w) cs) (address PUR2) =
       (if enabled then regs (chips w cs) (address PUR2) OR push_bit (unat (p mod 8)) 1
        else regs (chips w cs) (address PUR2) AND NOT (push_bit (unat (p mod 8)) 1))
   \<and> regs (chips (XRA1405_setPullUp cs p enabled w) cs) (address PUR1) =
       regs (chips w cs) (address PUR1)"
  using assms by (simp add: XRA1405_setPullUp_def rmw_simps)

lemma setInterrupt_high_bank:
  assumes "\<not> p < 8"
  shows "regs (chips (XRA1405_setInterrupt cs p interruptType w) cs) (address IER2) =
       regs (chips w cs) (address IER2) OR push_bit (unat (p mod 8)) 1
   \<and> regs (chips (XRA1405_setInterrupt cs p interruptType w) cs) (address IER1) =
       regs (chips w cs) (address IER1)"
  using assms by (simp add: XRA1405_setInterrupt_def configureEdgeInterrupt_def rmw_simps)

text \<open>
  Claim C9 says that with a pin argument \<open>p\<close> of 16 or more each per-pin operation
  behaves as with pin \<open>8 + p mod 8\<close>, selecting the high-bank register and the bit
  \<open>p mod 8\<close>. With pin 19 the selection does not hold of every register that is written:
  \<open>set_pin_mode\<close> with \<open>input_with_pullup\<close> leaves bit 3 of the high-bank pull-up
  register clear and sets it in the low-bank one, and \<open>set_interrupt\<close> with \<open>both\<close>
  leaves bit 3 of the high-bank rising-edge register clear and sets it in the low-bank one.
\<close>

theorem pin19_pullup_and_edge_in_low_bank:
  "\<not> bit (regs (chips (XRA1405_pinMode 5 19 INPUT_PULLUP bench) 5) (address PUR2)) 3
   \<and> bit (regs (chips (XRA1405_pinMode 5 19 INPUT_PULLUP bench) 5) (address PUR1)) 3
   \<and> \<not> bit (regs (chips (XRA1405_setInterrupt 5 19 INTERRUPT_BOTH bench) 5) (address REIR2)) 3
   \<and> bit (regs (chips (XRA1405_setInterrupt 5 19 INTERRUPT_BOTH bench) 5) (address REIR1)) 3"
  by (simp add: XRA1405_pinMode_def XRA1405_setInterrupt_def configureEdgeInterrupt_def
      run_simps bench_def reset_chip_def OUTPUT_def INPUT_PULLUP_def)

text \<open>
  Claim C9, amended. With a pin argument \<open>p\<close> of 16 or more, each per-pin operation does
  exactly what it does with pin \<open>8 + p mod 8\<close>: the same calls, the same expander
  afterwards and the same value returned; the operations are total, so nothing is raised.
  The register that the operation selects first is the high-bank one and the bit index
  is \<open>p mod 8\<close>: \<open>set_pin_mode\<close> clears or sets that bit of the high-bank
  configuration register, \<open>digital_write\<close> sets or clears it in the high-bank
  output-control register, \<open>digital_read\<close> returns it from the high-bank state
  register, \<open>set_pull_up\<close> sets or clears it in the high-bank pull-up register and
  \<open>set_interrupt\<close> sets it in the high-bank interrupt-enable register, each leaving
  the low-bank register of that family as it was.
\<close>

theorem pin_above_15_first_register_high_bank:
  assumes "16 \<le> p"
  shows "XRA1405_pinMode cs p mode w = XRA1405_pinMode cs (8 + p mod 8) mode w
   \<and> XRA1405_digitalWrite cs p val w = XRA1405_digitalWrite cs (8 + p mod 8) val w
   \<and> XRA1405_digitalRead cs p w = XRA1405_digitalRead cs (8 + p mod 8) w
   \<and> XRA1405_setPullUp cs p enabled w = XRA1405_setPullUp cs (8 + p mod 8) enabled w
   \<and> XRA1405_setInterrupt cs p interruptType w =
       XRA1405_setInterrupt cs (8 + p mod 8) interruptType w
   \<and> regs (chips (XRA1405_pinMode cs p mode w) cs) (address GCR2) =
       (if mode = OUTPUT then regs (chips w cs) (address GCR2) AND NOT (push_bit (unat (p mod 8)) 1)
        else regs (chips w cs) (address GCR2) OR push_bit (unat (p mod 8)) 1)
   \<and> regs (chips (XRA1405_pinMode cs p mode w) cs) (address GCR1) =
       regs (chips w cs) (address GCR1)
   \<and> regs (chips (XRA1405_digitalWrite cs p val w) cs) (address OCR2) =
       (if val = HIGH then regs (chips w cs) (address OCR2) OR push_bit (unat (p mod 8)) 1
        else regs (chips w cs) (address OCR2) AND NOT (push_bit (unat (p mod 8)) 1))
   \<and> regs (chips (XRA1405_digitalWrite cs p val w) cs) (address OCR1) =
       regs (chips w cs) (address OCR1)
   \<and> fst (XRA1405_digitalRead cs p w) =
       drop_bit (unat (p mod 8)) (device_read (chips w cs) (address GSR2)) AND 0x01
   \<and> chips (snd (XRA1405_digitalRead cs p w)) = chips w
   \<and> regs (chips (XRA1405_setPullUp cs p enabled w) cs) (address PUR2) =
       (if enabled then regs (chips w cs) (address PUR2) OR push_bit (unat (p mod 8)) 1
        else regs (chips w cs) (address PUR2) AND NOT (push_bit (unat (p mod 8)) 1))
   \<and> regs (chips (XRA1405_setPullUp cs p enabled w) cs) (address PUR1) =
       regs (chips w cs) (address PUR1)
   \<and> regs (chips (XRA1405_setInterrupt cs p interruptType w) cs) (address IER2) =
       regs (chips w cs) (address IER2) OR push_bit (unat (p mod 8)) 1
   \<and> regs (chips (XRA1405_setInterrupt cs p interruptType w) cs) (address IER1) =
       regs (chips w cs) (address IER1)"
proof -
  have high: "\<not> p < 8"
    using assms by (rule pin_ge16_not_low)
  show ?thesis
    using pin_above_15_aliases [OF assms, of cs mode w val enabled interruptType]
      pinMode_high_bank [OF high, of cs mode w] digitalWrite_high_bank [OF high, of cs val w]
      digitalRead_high_bank [OF high, of cs w] setPullUp_high_bank [OF high, of cs enabled w]
      setInterrupt_high_bank [OF high, of cs interruptType w]
    by (simp only: simp_thms)
qed

theorem pin_above_15_first_register_high_bank_witness:
  "16 \<le> (19 :: uint8_t)
   \<and> XRA1405_pinMode 5 19 OUTPUT bench = XRA1405_pinMode 5 11 OUTPUT bench
   \<and> XRA1405_digitalWrite 5 19 HIGH bench = XRA1405_digitalWrite 5 11 HIGH bench
   \<and> XRA1405_digitalRead 5 19 bench = XRA1405_digitalRead 5 11 bench
   \<and> XRA1405_setPullUp 5 19 True bench = XRA1405_setPullUp 5 11 True bench
   \<and> XRA1405_setInterrupt 5 19 INTERRUPT_BOTH bench =
       XRA1405_setInterrupt 5 11 INTERRUPT_BOTH bench
   \<and> regs (chips (XRA1405_pinMode 5 19 OUTPUT bench) 5) (address GCR2) = 0xF7
   \<and> regs (chips (XRA1405_pinMode 5 19 OUTPUT bench) 5) (address GCR1) = 0xFF
   \<and> regs (chips (XRA1405_digitalWrite 5 19 HIGH bench) 5) (address OCR2) = 0x08
   \<and> regs (chips (XRA1405_digitalWrite 5 19 HIGH bench) 5) (address OCR1) = 0x00
   \<and> fst (XRA1405_digitalRead 5 19 bench) = 0x00
   \<and> chips (snd (XRA1405_digitalRead 5 19 bench)) = chips bench
   \<and> regs (chips (XRA1405_setPullUp 5 19 True bench) 5) (address PUR2) = 0x08
   \<and> regs (chips (XRA1405_setPullUp 5 19 True bench) 5) (address PUR1) = 0x00
   \<and> regs (chips (XRA1405_setInterrupt 5 19 INTERRUPT_BOTH bench) 5) (address IER2) = 0x08
   \<and> regs (chips (XRA1405_setInterrupt 5 19 INTERRUPT_BOTH bench) 5) (address IER1) = 0x00"
proof -
  have p: "16 \<le> (19 :: uint8_t)"
    by simp
  have bench_regs: "regs (chips bench c) a = (if a = 6 \<or> a = 7 then 0xFF else 0x00)" for c a
    by (simp add: bench_def reset_chip_def)
  have bench_level: "level2 (chips bench c) = 0x00" for c
    by (simp add: bench_def reset_chip_def)
  show ?thesis
    using p pin_above_15_first_register_high_bank [OF p, of 5 OUTPUT bench HIGH True INTERRUPT_BOTH]
    by (elim conjE) (simp add: bench_regs bench_level device_read_def pin_state_def)
qed

end
